theory Spec2Isabelle
  imports Complex_Main "HOL-Library.Multiset"
begin

chapter \<open>Automated data analysis: the analysis engine and the training dispatcher\<close>

text \<open>
  A shallow embedding of the analysis utilities (\<^verbatim>\<open>detectColumnType\<close>,
  \<^verbatim>\<open>calculateCorrelation\<close>, \<^verbatim>\<open>detectOutliers\<close>, \<^verbatim>\<open>detectTrend\<close>,
  \<^verbatim>\<open>generateInsights\<close>) and of \<^verbatim>\<open>src/utils/modeling.ts\<close>
  (\<^verbatim>\<open>shuffle\<close>, \<^verbatim>\<open>splitData\<close>, \<^verbatim>\<open>trainModel\<close> and the eleven trainers).

  Numbers. A JavaScript number is modelled by a \<^typ>\<open>real\<close>: arithmetic is exact, and the values
  \<^verbatim>\<open>NaN\<close> and \<^verbatim>\<open>Infinity\<close> do not exist. Where the source tests for \<^verbatim>\<open>NaN\<close> (the result of
  \<^verbatim>\<open>Number(...)\<close> on a cell) the model uses \<^typ>\<open>real option\<close> with \<^term>\<open>None\<close> for \<^verbatim>\<open>NaN\<close>.
  Array lengths, counters and indices are \<^typ>\<open>nat\<close> or \<^typ>\<open>int\<close>.
\<close>

section \<open>The model\<close>

subsection \<open>Cells, rows and column descriptions\<close>

text \<open>
  A raw cell (\<^verbatim>\<open>any\<close> in the source) is \<^verbatim>\<open>null\<close>, \<^verbatim>\<open>undefined\<close>, a boolean, a number or a
  string. A row (\<^verbatim>\<open>Record<string, any>\<close>) maps column names to cells; reading a key that is
  absent gives \<^verbatim>\<open>undefined\<close>.
\<close>

datatype cell = Null | Undefined | BoolV bool | NumV real | StrV string

type_synonym row = "string \<rightharpoonup> cell"

definition cellOf :: "row \<Rightarrow> string \<Rightarrow> cell" where
  "cellOf r col = (case r col of None \<Rightarrow> Undefined | Some v \<Rightarrow> v)"

text \<open>
  Errors. Reading a property of \<^verbatim>\<open>undefined\<close> raises a \<^verbatim>\<open>TypeError\<close>; it is the only
  exception the modelled code can raise.
\<close>

datatype error = TypeError

text \<open>
  The built-ins of the JavaScript runtime that inspect strings are parameters of the model:
  \<open>strToNumber s\<close> is \<^verbatim>\<open>Number(s)\<close> for a string \<open>s\<close> (\<^term>\<open>None\<close> when the result is
  \<^verbatim>\<open>NaN\<close>), and \<open>dateParses v\<close> says that \<^verbatim>\<open>Date.parse(String(v))\<close> is not \<^verbatim>\<open>NaN\<close>.
  On the other cells \<^verbatim>\<open>Number\<close> is fixed by the language.
\<close>

definition Number :: "(string \<Rightarrow> real option) \<Rightarrow> cell \<Rightarrow> real option" where
  "Number strToNumber val =
     (case val of
        Null \<Rightarrow> Some 0
      | Undefined \<Rightarrow> None
      | BoolV b \<Rightarrow> Some (if b then 1 else 0)
      | NumV r \<Rightarrow> Some r
      | StrV s \<Rightarrow> strToNumber s)"

definition isBoolean :: "cell \<Rightarrow> bool" where
  "isBoolean val = (case val of BoolV b \<Rightarrow> True | _ \<Rightarrow> False)"

datatype columnType = TNumber | TString | TDate | TBoolean

text \<open>The interfaces \<^verbatim>\<open>ColumnInfo\<close>, \<^verbatim>\<open>ColumnStats\<close> and \<^verbatim>\<open>Insight\<close>. An optional field is an
  \<open>option\<close>. The fields \<^verbatim>\<open>type\<close>, \<^verbatim>\<open>min\<close> and \<^verbatim>\<open>max\<close> are renamed (\<open>colType\<close>, \<open>kind\<close>, \<open>minV\<close>,
  \<open>maxV\<close>). The \<^verbatim>\<open>description\<close> of an insight, a sentence with formatted numbers, is left out:
  an insight is its type, its title and its severity.\<close>

record ColumnInfo =
  name :: string
  colType :: columnType
  nullable :: bool

record ColumnStats =
  count :: nat
  nullCount :: nat
  uniqueCount :: nat
  mean :: "real option"
  median :: "real option"
  mode :: "cell option"
  stdDev :: "real option"
  minV :: "real option"
  maxV :: "real option"
  quartiles :: "(real \<times> real \<times> real) option"

datatype insightKind = Correlation | Outlier | Trend | Summary

datatype severityLevel = Low | Medium | High

record Insight =
  kind :: insightKind
  title :: string
  severity :: severityLevel

subsection \<open>Trend detection\<close>

datatype trend = Increasing | Decreasing | Stable

text \<open>One iteration of the loop \<^verbatim>\<open>for (let i = 1; i < values.length; i++)\<close>; the state is the
  pair of counters \<^verbatim>\<open>(increases, decreases)\<close>.\<close>

definition trendStep :: "real list \<Rightarrow> nat \<Rightarrow> nat \<times> nat \<Rightarrow> nat \<times> nat" where
  "trendStep values i s =
     (case s of (increases, decreases) \<Rightarrow>
        if values ! i > values ! (i - 1) then (increases + 1, decreases)
        else if values ! i < values ! (i - 1) then (increases, decreases + 1)
        else (increases, decreases))"

definition detectTrend :: "real list \<Rightarrow> trend" where
  "detectTrend values =
     (if length values < 3 then Stable
      else
        (case fold (trendStep values) [1..<length values] (0, 0) of
           (increases, decreases) \<Rightarrow>
             let threshold = real (length values) * 0.6 in
             if real increases > threshold then Increasing
             else if real decreases > threshold then Decreasing
             else Stable))"

text \<open>The two quantities the specification speaks about: the number of adjacent steps that go
  strictly up, and the number that go strictly down.\<close>

definition risingSteps :: "real list \<Rightarrow> nat" where
  "risingSteps values =
     length (filter (\<lambda>i. values ! (i - 1) < values ! i) [1..<length values])"

definition fallingSteps :: "real list \<Rightarrow> nat" where
  "fallingSteps values =
     length (filter (\<lambda>i. values ! i < values ! (i - 1)) [1..<length values])"

subsection \<open>Outlier detection\<close>

record outlierReport =
  count :: nat
  indices :: "int list"

text \<open>\<^verbatim>\<open>[...values].sort((a, b) => a - b)\<close> is the ascending sort. The index list is built as in
  the source: every position is mapped to itself or to the sentinel \<^verbatim>\<open>-1\<close>, and the sentinels
  are filtered out.\<close>

definition detectOutliers :: "real list \<Rightarrow> outlierReport" where
  "detectOutliers values =
     (if length values < 4 then \<lparr>count = 0, indices = []\<rparr>
      else
        let sorted = sort values;
            q1 = sorted ! nat \<lfloor>real (length sorted) * 0.25\<rfloor>;
            q3 = sorted ! nat \<lfloor>real (length sorted) * 0.75\<rfloor>;
            iqr = q3 - q1;
            lowerBound = q1 - 1.5 * iqr;
            upperBound = q3 + 1.5 * iqr;
            outlierIndices =
              filter (\<lambda>i. i \<noteq> - 1)
                (map (\<lambda>(v, i). if v < lowerBound \<or> v > upperBound then int i else - 1)
                   (zip values [0..<length values]))
        in \<lparr>count = length outlierIndices, indices = outlierIndices\<rparr>)"



subsection \<open>Correlation\<close>

text \<open>\<^verbatim>\<open>xs.reduce(f, 0)\<close> is a left fold; the callback of \<^verbatim>\<open>sumXY\<close> also reads the index.\<close>

definition calculateCorrelation :: "real list \<Rightarrow> real list \<Rightarrow> real" where
  "calculateCorrelation x y =
     (if length x \<noteq> length y \<or> length x = 0 then 0
      else
        let n = real (length x);
            sumX = foldl (\<lambda>a b. a + b) 0 x;
            sumY = foldl (\<lambda>a b. a + b) 0 y;
            sumXY = foldl (\<lambda>sum (xi, i). sum + xi * y ! i) 0 (zip x [0..<length x]);
            sumX2 = foldl (\<lambda>sum xi. sum + xi * xi) 0 x;
            sumY2 = foldl (\<lambda>sum yi. sum + yi * yi) 0 y;
            numerator = n * sumXY - sumX * sumY;
            denominator = sqrt ((n * sumX2 - sumX * sumX) * (n * sumY2 - sumY * sumY))
        in if denominator = 0 then 0 else numerator / denominator)"



subsection \<open>Type inference\<close>

text \<open>One iteration of \<^verbatim>\<open>for (let i = 0; i < sampleSize; i++)\<close>; the state is the triple
  \<^verbatim>\<open>(numberCount, dateCount, booleanCount)\<close>. An empty cell leaves it unchanged
  (\<^verbatim>\<open>continue\<close>).\<close>

definition typeStep ::
  "(string \<Rightarrow> real option) \<Rightarrow> (cell \<Rightarrow> bool) \<Rightarrow> cell list \<Rightarrow> nat \<Rightarrow>
     nat \<times> nat \<times> nat \<Rightarrow> nat \<times> nat \<times> nat" where
  "typeStep strToNumber dateParses values i s =
     (case s of (numberCount, dateCount, booleanCount) \<Rightarrow>
        let val = values ! i in
        if val = Null \<or> val = Undefined \<or> val = StrV [] then s
        else if isBoolean val \<or> val = StrV ''true'' \<or> val = StrV ''false''
          then (numberCount, dateCount, booleanCount + 1)
        else if Number strToNumber val \<noteq> None \<and> val \<noteq> StrV []
          then (numberCount + 1, dateCount, booleanCount)
        else if dateParses val
          then (numberCount, dateCount + 1, booleanCount)
        else s)"

definition detectColumnType ::
  "(string \<Rightarrow> real option) \<Rightarrow> (cell \<Rightarrow> bool) \<Rightarrow> cell list \<Rightarrow> columnType" where
  "detectColumnType strToNumber dateParses values =
     (let sampleSize = min 100 (length values) in
      case fold (typeStep strToNumber dateParses values) [0..<sampleSize] (0, 0, 0) of
        (numberCount, dateCount, booleanCount) \<Rightarrow>
          if real booleanCount > real sampleSize * 0.8 then TBoolean
          else if real numberCount > real sampleSize * 0.8 then TNumber
          else if real dateCount > real sampleSize * 0.8 then TDate
          else TString)"

text \<open>The classes of cells the loop tells apart.\<close>

definition isEmptyCell :: "cell \<Rightarrow> bool" where
  "isEmptyCell val \<longleftrightarrow> val = Null \<or> val = Undefined \<or> val = StrV []"

definition booleanLike :: "cell \<Rightarrow> bool" where
  "booleanLike val \<longleftrightarrow> isBoolean val \<or> val = StrV ''true'' \<or> val = StrV ''false''"

definition numericLike :: "(string \<Rightarrow> real option) \<Rightarrow> cell \<Rightarrow> bool" where
  "numericLike strToNumber val \<longleftrightarrow>
     \<not> isEmptyCell val \<and> \<not> booleanLike val \<and> Number strToNumber val \<noteq> None"

definition dateLike :: "(string \<Rightarrow> real option) \<Rightarrow> (cell \<Rightarrow> bool) \<Rightarrow> cell \<Rightarrow> bool" where
  "dateLike strToNumber dateParses val \<longleftrightarrow>
     \<not> isEmptyCell val \<and> \<not> booleanLike val \<and> Number strToNumber val = None \<and> dateParses val"

subsection \<open>Insight generation\<close>

text \<open>
  \<^verbatim>\<open>calculateDataQuality\<close> reads \<^verbatim>\<open>statistics[col.name].nullCount\<close> for every column and
  raises a \<^verbatim>\<open>TypeError\<close> when a column has no statistics. The score is
  \<^verbatim>\<open>Math.round(x)\<close>, that is \<open>\<lfloor>x + 1/2\<rfloor>\<close>; with no cells at all the quotient is not a
  finite number (\<^term>\<open>None\<close>) and every comparison with it is false.
\<close>

fun sumNullCounts :: "(string \<rightharpoonup> ColumnStats) \<Rightarrow> ColumnInfo list \<Rightarrow> nat \<Rightarrow> error + nat" where
  "sumNullCounts statistics [] missingCells = Inr missingCells"
| "sumNullCounts statistics (col # cols) missingCells =
     (case statistics (name col) of
        None \<Rightarrow> Inl TypeError
      | Some stats \<Rightarrow> sumNullCounts statistics cols (missingCells + nullCount stats))"

definition calculateDataQuality ::
  "row list \<Rightarrow> ColumnInfo list \<Rightarrow> (string \<rightharpoonup> ColumnStats) \<Rightarrow> error + int option" where
  "calculateDataQuality data columnInfo statistics =
     (let totalCells = length data * length columnInfo in
      case sumNullCounts statistics columnInfo 0 of
        Inl e \<Rightarrow> Inl e
      | Inr missingCells \<Rightarrow>
          if totalCells = 0 then Inr None
          else Inr (Some \<lfloor>((real totalCells - real missingCells) / real totalCells) * 100 + 1 / 2\<rfloor>))"

text \<open>\<^verbatim>\<open>data.map(row => Number(row[col])).filter(v => !isNaN(v))\<close>: the numbers of a column,
  in row order. An empty cell is not dropped here: \<^verbatim>\<open>Number(null)\<close> is 0.\<close>

definition columnNumbers :: "(string \<Rightarrow> real option) \<Rightarrow> row list \<Rightarrow> string \<Rightarrow> real list" where
  "columnNumbers strToNumber data col =
     map the (filter (\<lambda>v. v \<noteq> None) (map (\<lambda>r. Number strToNumber (cellOf r col)) data))"

text \<open>An optional number used as a condition (\<^verbatim>\<open>if (stats.stdDev && stats.mean)\<close>) counts as
  true when it is present and not zero.\<close>

definition truthy :: "real option \<Rightarrow> bool" where
  "truthy v = (case v of None \<Rightarrow> False | Some r \<Rightarrow> r \<noteq> 0)"

text \<open>The rules of the loop over the numeric columns, in the order of the source. Each one
  pushes at most one insight.\<close>

definition outlierInsights :: "string \<Rightarrow> real list \<Rightarrow> Insight list" where
  "outlierInsights colName values =
     (let outliers = detectOutliers values in
      if outlierReport.count outliers > 0
      then [\<lparr>kind = Outlier, title = ''Anomalies Detected in '' @ colName,
             severity = (if real (outlierReport.count outliers) > real (length values) * 0.1
                         then High else Medium)\<rparr>]
      else [])"

definition trendInsights :: "string \<Rightarrow> real list \<Rightarrow> Insight list" where
  "trendInsights colName values =
     (let trend = detectTrend values in
      if trend \<noteq> Stable
      then [\<lparr>kind = Trend,
             title = (if trend = Increasing then ''Upward'' else ''Downward'') @ '' Trend in '' @ colName,
             severity = Medium\<rparr>]
      else [])"

definition variabilityInsights :: "string \<Rightarrow> ColumnStats \<Rightarrow> Insight list" where
  "variabilityInsights colName stats =
     (if truthy (stdDev stats) \<and> truthy (mean stats) then
        let cv = (the (stdDev stats) / the (mean stats)) * 100 in
        if cv > 75
        then [\<lparr>kind = Trend, title = ''Extreme Variability in '' @ colName, severity = High\<rparr>]
        else if cv < 5
        then [\<lparr>kind = Trend, title = ''Low Variability in '' @ colName, severity = Low\<rparr>]
        else []
      else [])"

definition numericColumnInsights ::
  "(string \<Rightarrow> real option) \<Rightarrow> row list \<Rightarrow> (string \<rightharpoonup> ColumnStats) \<Rightarrow> ColumnInfo \<Rightarrow> Insight list" where
  "numericColumnInsights strToNumber data statistics col =
     (case statistics (name col) of
        None \<Rightarrow> []
      | Some stats \<Rightarrow>
          let values = columnNumbers strToNumber data (name col) in
          (if length values > 0
           then outlierInsights (name col) values @ trendInsights (name col) values @
                variabilityInsights (name col) stats
           else []) @
          (if real (nullCount stats) > real (length data) * 0.2
           then [\<lparr>kind = Outlier, title = ''Significant Missing Data in '' @ name col,
                  severity = High\<rparr>]
           else []) @
          (if uniqueCount stats = length data
           then [\<lparr>kind = Summary, title = name col @ '' Contains Unique Values'',
                  severity = Low\<rparr>]
           else []))"

text \<open>\<^verbatim>\<open>findCorrelations\<close>: the two nested loops over the pairs \<open>i < j\<close> of numeric columns,
  then a stable sort by decreasing absolute value. The field \<^verbatim>\<open>value\<close> of an entry is called
  \<open>corrValue\<close>.\<close>

record correlationEntry =
  col1 :: string
  col2 :: string
  corrValue :: real

definition findCorrelations ::
  "(string \<Rightarrow> real option) \<Rightarrow> row list \<Rightarrow> ColumnInfo list \<Rightarrow> correlationEntry list" where
  "findCorrelations strToNumber data numericColumns =
     (let correlations =
        concat (map (\<lambda>i.
          concat (map (\<lambda>j.
            let c1 = name (numericColumns ! i);
                c2 = name (numericColumns ! j);
                values1 = columnNumbers strToNumber data c1;
                values2 = columnNumbers strToNumber data c2
            in if length values1 > 2 \<and> length values2 > 2
               then (let correlation = calculateCorrelation values1 values2 in
                     if \<bar>correlation\<bar> > 0.5
                     then [\<lparr>col1 = c1, col2 = c2, corrValue = correlation\<rparr>]
                     else [])
               else [])
            [i + 1..<length numericColumns]))
          [0..<length numericColumns])
      in sort_key (\<lambda>c. - \<bar>corrValue c\<bar>) correlations)"

definition correlationInsights :: "correlationEntry list \<Rightarrow> Insight list" where
  "correlationInsights correlations =
     concat (map (\<lambda>corr.
       let strength = \<bar>corrValue corr\<bar> in
       if strength > 0.7
       then [\<lparr>kind = Correlation,
              title = ''Strong '' @ (if corrValue corr > 0 then ''Positive'' else ''Negative'') @
                      '' Correlation Found'',
              severity = (if strength > 0.9 then High else Medium)\<rparr>]
       else []) correlations)"

text \<open>The loop over the string columns reads \<^verbatim>\<open>stats.uniqueCount\<close> without a guard, so a
  string column with no statistics raises a \<^verbatim>\<open>TypeError\<close>.\<close>

fun stringColumnInsights ::
  "row list \<Rightarrow> (string \<rightharpoonup> ColumnStats) \<Rightarrow> ColumnInfo list \<Rightarrow> error + Insight list" where
  "stringColumnInsights data statistics [] = Inr []"
| "stringColumnInsights data statistics (col # cols) =
     (case statistics (name col) of
        None \<Rightarrow> Inl TypeError
      | Some stats \<Rightarrow>
          (case stringColumnInsights data statistics cols of
             Inl e \<Rightarrow> Inl e
           | Inr rest \<Rightarrow>
               Inr ((if real (uniqueCount stats) < real (length data) * 0.05
                     then [\<lparr>kind = Summary, title = name col @ '' Has Few Categories'',
                            severity = Low\<rparr>]
                     else []) @ rest)))"

definition exceeds :: "int option \<Rightarrow> int \<Rightarrow> bool" where
  "exceeds score bound = (case score of None \<Rightarrow> False | Some s \<Rightarrow> s > bound)"

definition generateInsights ::
  "(string \<Rightarrow> real option) \<Rightarrow> row list \<Rightarrow> ColumnInfo list \<Rightarrow> (string \<rightharpoonup> ColumnStats) \<Rightarrow>
     error + Insight list" where
  "generateInsights strToNumber data columnInfo statistics =
     (let numericColumns = filter (\<lambda>c. colType c = TNumber) columnInfo in
      case calculateDataQuality data columnInfo statistics of
        Inl e \<Rightarrow> Inl e
      | Inr dataQualityScore \<Rightarrow>
          let summary =
                \<lparr>kind = Summary, title = ''Intelligent Dataset Analysis'',
                 severity = (if exceeds dataQualityScore 80 then Low
                             else if exceeds dataQualityScore 60 then Medium else High)\<rparr>;
              perColumn = concat (map (numericColumnInsights strToNumber data statistics) numericColumns);
              correlated =
                (if length numericColumns \<ge> 2
                 then correlationInsights (findCorrelations strToNumber data numericColumns)
                 else []);
              stringColumns = filter (\<lambda>c. colType c = TString) columnInfo
          in case stringColumnInsights data statistics stringColumns of
               Inl e \<Rightarrow> Inl e
             | Inr few \<Rightarrow> Inr (summary # perColumn @ correlated @ few))"

text \<open>The three insights the properties below speak about.\<close>

definition missingDataInsight :: "string \<Rightarrow> Insight" where
  "missingDataInsight c =
     \<lparr>kind = Outlier, title = ''Significant Missing Data in '' @ c, severity = High\<rparr>"



subsection \<open>The seeded shuffle and the train/test split\<close>

text \<open>
  The generator state \<^verbatim>\<open>currentSeed\<close> is a double that always holds an integer, so it is an
  \<^typ>\<open>int\<close> here. Its update \<^verbatim>\<open>(currentSeed * 9301 + 49297) % 233280\<close> rounds the product and
  the sum to doubles: \<open>roundToDouble\<close> rounds an integer to the nearest integer with a
  significand of 53 bits, ties to even (the identity below \<open>2\<^sup>5\<^sup>3\<close>; a wall-clock seed exceeds
  that after the multiplication). The remainder \<^verbatim>\<open>%\<close> takes the sign of the dividend.
\<close>

function excessBits :: "int \<Rightarrow> nat" where
  "excessBits a = (if a < 2 ^ 53 then 0 else Suc (excessBits (a div 2)))"
  by pat_completeness auto
termination
  by (relation "measure nat") auto

declare excessBits.simps [simp del]

definition roundToDouble :: "int \<Rightarrow> int" where
  "roundToDouble x =
     (let a = \<bar>x\<bar>;
          e = excessBits a;
          q = a div 2 ^ e;
          r = a mod 2 ^ e
      in sgn x * ((if 2 * r > 2 ^ e \<or> (2 * r = 2 ^ e \<and> odd q) then q + 1 else q) * 2 ^ e))"

definition jsRem :: "int \<Rightarrow> int \<Rightarrow> int" where
  "jsRem a b = sgn a * (\<bar>a\<bar> mod \<bar>b\<bar>)"

definition nextSeed :: "int \<Rightarrow> int" where
  "nextSeed currentSeed =
     jsRem (roundToDouble (roundToDouble (currentSeed * 9301) + 49297)) 233280"

text \<open>
  \<^verbatim>\<open>Math.floor(random() * (i + 1))\<close> with \<^verbatim>\<open>random()\<close> returning \<^verbatim>\<open>currentSeed / 233280\<close>. The
  quotient and the product are exact here. With a negative state the result is negative.
\<close>

definition randomIndex :: "int \<Rightarrow> nat \<Rightarrow> int" where
  "randomIndex currentSeed i = \<lfloor>(real_of_int currentSeed / 233280) * real (i + 1)\<rfloor>"

text \<open>
  A JavaScript array: its elements, where \<^term>\<open>None\<close> is \<^verbatim>\<open>undefined\<close>, and the values stored
  under keys that are not indices (a negative \<open>j\<close> in \<^verbatim>\<open>result[j] = ...\<close> creates a property
  and leaves the elements alone). Reading a key that was never written gives \<^verbatim>\<open>undefined\<close>;
  writing at an index past the end extends the array with holes.
\<close>

record 'a jsArray =
  elems :: "'a option list"
  props :: "int \<Rightarrow> 'a option"

definition arrayGet :: "'a jsArray \<Rightarrow> int \<Rightarrow> 'a option" where
  "arrayGet a k =
     (if 0 \<le> k then (if nat k < length (elems a) then elems a ! nat k else None)
      else props a k)"

definition arraySet :: "'a jsArray \<Rightarrow> int \<Rightarrow> 'a option \<Rightarrow> 'a jsArray" where
  "arraySet a k v =
     (if 0 \<le> k then
        (if nat k < length (elems a) then a\<lparr>elems := (elems a)[nat k := v]\<rparr>
         else a\<lparr>elems := elems a @ replicate (nat k - length (elems a)) None @ [v]\<rparr>)
      else a\<lparr>props := (props a)(k := v)\<rparr>)"

record 'a shuffleState =
  result :: "'a jsArray"
  currentSeed :: int

text \<open>One iteration of \<^verbatim>\<open>for (let i = result.length - 1; i > 0; i--)\<close>: draw \<open>j\<close>, then the
  destructuring swap, which reads \<^verbatim>\<open>result[j]\<close> and \<^verbatim>\<open>result[i]\<close> and then writes
  \<^verbatim>\<open>result[i]\<close> and \<^verbatim>\<open>result[j]\<close>.\<close>

definition shuffleStep :: "nat \<Rightarrow> 'a shuffleState \<Rightarrow> 'a shuffleState" where
  "shuffleStep i s =
     (let seed' = nextSeed (currentSeed s);
          j = randomIndex seed' i;
          atJ = arrayGet (result s) j;
          atI = arrayGet (result s) (int i)
      in \<lparr>result = arraySet (arraySet (result s) (int i) atJ) j atI, currentSeed = seed'\<rparr>)"

text \<open>
  \<^verbatim>\<open>let currentSeed = seed || Date.now()\<close>: the seed is optional, and a seed that is absent or
  zero is replaced by the wall clock \<open>now\<close>, the reading of \<^verbatim>\<open>Date.now()\<close> at the call.
\<close>

definition initialSeed :: "int option \<Rightarrow> int \<Rightarrow> int" where
  "initialSeed seed now = (case seed of None \<Rightarrow> now | Some s \<Rightarrow> if s = 0 then now else s)"

definition shuffle :: "'a list \<Rightarrow> int option \<Rightarrow> int \<Rightarrow> 'a option list" where
  "shuffle array seed now =
     elems (result (fold shuffleStep (rev [1..<length array])
       \<lparr>result = \<lparr>elems = map Some array, props = (\<lambda>k. None)\<rparr>,
        currentSeed = initialSeed seed now\<rparr>))"

text \<open>\<^verbatim>\<open>Array.prototype.slice(start, end)\<close>: a negative bound counts from the end, and both
  bounds are clamped to the array.\<close>

definition slice :: "'a list \<Rightarrow> int \<Rightarrow> int \<Rightarrow> 'a list" where
  "slice xs start end =
     (let len = int (length xs);
          k = (if start < 0 then max (len + start) 0 else min start len);
          final = (if end < 0 then max (len + end) 0 else min end len)
      in take (nat (final - k)) (drop (nat k) xs))"

record 'a split =
  trainData :: "'a option list"
  testData :: "'a option list"

text \<open>\<^verbatim>\<open>splitData\<close>. The product \<^verbatim>\<open>data.length * testSize\<close> is exact here.\<close>

definition splitData :: "'a list \<Rightarrow> real \<Rightarrow> int option \<Rightarrow> int \<Rightarrow> 'a split" where
  "splitData data testSize seed now =
     (let shuffled = shuffle data seed now;
          testCount = \<lfloor>real (length data) * testSize\<rfloor>
      in \<lparr>trainData = slice shuffled testCount (int (length shuffled)),
          testData = slice shuffled 0 testCount\<rparr>)"


subsection \<open>Training: results, progress and the helpers of the trainers\<close>

text \<open>
  The eleven model types and the configuration of a run. The field \<^verbatim>\<open>type\<close> of a
  \<^verbatim>\<open>ModelConfig\<close> is called \<open>modelKind\<close>. The dispatcher's \<^verbatim>\<open>default\<close> branch, which throws
  \<^verbatim>\<open>Error('Unknown model type')\<close>, cannot be reached with a value of this type.
\<close>

datatype ModelType =
    LinearRegression | LogisticRegression | DecisionTree | RandomForest | GradientBoosting
  | XGBoost | SVM | KNN | NaiveBayes | NeuralNetwork | KMeans

record ModelConfig =
  modelKind :: ModelType
  targetColumn :: string
  featureColumns :: "string list"
  testSize :: real
  randomSeed :: "int option"














subsection \<open>Linear and logistic regression\<close>






subsection \<open>Decision tree\<close>



subsection \<open>K-means\<close>





subsection \<open>Random forest\<close>







subsection \<open>Gradient boosting\<close>

text \<open>
  \<^verbatim>\<open>buildStump\<close> searches every feature and every midpoint between two neighbouring distinct
  values for the split of largest gain. \<^verbatim>\<open>bestGain\<close> starts at \<^verbatim>\<open>-Infinity\<close>, which is
  \<^term>\<open>None\<close> here: any gain exceeds it.
\<close>

record stump =
  featureIndex :: nat
  threshold :: real
  leftValue :: real
  rightValue :: real








subsection \<open>The boosted-tree variant\<close>








subsection \<open>Support vector machine\<close>




subsection \<open>K nearest neighbours\<close>




subsection \<open>Naive Bayes\<close>









subsection \<open>Neural network\<close>





subsection \<open>The dispatcher\<close>









section \<open>Properties\<close>

subsection \<open>Trend detection\<close>

lemma fold_trendStep:
  "fold (trendStep values) js (a, b) =
     (a + length (filter (\<lambda>i. values ! (i - 1) < values ! i) js),
      b + length (filter (\<lambda>i. values ! i < values ! (i - 1)) js))"
  by (induction js arbitrary: a b) (auto simp: trendStep_def)

lemma rising_falling_bound: "risingSteps values + fallingSteps values \<le> length values - 1"
proof -
  have "length (filter P js) + length (filter Q js) \<le> length js"
    if "\<And>i. \<not> (P i \<and> Q i)" for P Q :: "nat \<Rightarrow> bool" and js
    using that by (induction js) auto
  from this [of "\<lambda>i. values ! (i - 1) < values ! i" "\<lambda>i. values ! i < values ! (i - 1)"
      "[1..<length values]"]
  show ?thesis by (simp add: risingSteps_def fallingSteps_def)
qed

lemma sixty_percent_of_length: "real n * 0.6 < real k \<longleftrightarrow> 3 * n < 5 * k"
proof -
  have "real n * 0.6 < real k \<longleftrightarrow> real (3 * n) < real (5 * k)"
    by (simp add: field_simps)
  then show ?thesis by (simp only: of_nat_less_iff)
qed

lemma detectTrend_eq:
  "detectTrend values =
     (if length values < 3 then Stable
      else if 3 * length values < 5 * risingSteps values then Increasing
      else if 3 * length values < 5 * fallingSteps values then Decreasing
      else Stable)"
  by (simp add: detectTrend_def fold_trendStep risingSteps_def fallingSteps_def Let_def
      sixty_percent_of_length)

text \<open>
  Claim C2, as the code has it. The loop counts the strictly rising and the strictly falling
  adjacent steps of the whole sequence. The threshold is 60% of the number \<open>n\<close> of values
  (\<^verbatim>\<open>values.length * 0.6\<close>), not 60% of the \<open>n - 1\<close> steps: the result is "increasing" exactly
  when \<open>n \<ge> 3\<close> and the rising steps exceed \<open>0.6 n\<close> (that is \<open>3 n < 5 \<times> rising\<close>), "decreasing"
  exactly when \<open>n \<ge> 3\<close> and the falling steps exceed \<open>0.6 n\<close>, and "stable" otherwise, in
  particular whenever \<open>n < 3\<close>. The three examples of the specification come out as stated.
\<close>

theorem detectTrend_threshold_of_length:
  "(detectTrend values = Increasing \<longleftrightarrow>
      3 \<le> length values \<and> 3 * length values < 5 * risingSteps values) \<and>
   (detectTrend values = Decreasing \<longleftrightarrow>
      3 \<le> length values \<and> 3 * length values < 5 * fallingSteps values) \<and>
   (detectTrend values = Stable \<longleftrightarrow>
      length values < 3 \<or>
      (5 * risingSteps values \<le> 3 * length values \<and>
       5 * fallingSteps values \<le> 3 * length values)) \<and>
   detectTrend [1, 2, 3, 4, 5] = Increasing \<and>
   detectTrend [5, 4, 3, 2, 1] = Decreasing \<and>
   detectTrend [1, 3, 1, 3, 1] = Stable"
proof -
  have ex: "detectTrend [1, 2, 3, 4, 5] = Increasing" "detectTrend [5, 4, 3, 2, 1] = Decreasing"
    "detectTrend [1, 3, 1, 3, 1] = Stable"
    by (simp_all add: detectTrend_def trendStep_def upt_rec)
  have b: "risingSteps values + fallingSteps values \<le> length values - 1"
    by (rule rising_falling_bound)
  have "detectTrend values = Increasing \<longleftrightarrow>
      3 \<le> length values \<and> 3 * length values < 5 * risingSteps values"
    by (auto simp: detectTrend_eq)
  moreover have "detectTrend values = Decreasing \<longleftrightarrow>
      3 \<le> length values \<and> 3 * length values < 5 * fallingSteps values"
    using b by (auto simp: detectTrend_eq)
  moreover have "detectTrend values = Stable \<longleftrightarrow>
      length values < 3 \<or>
      (5 * risingSteps values \<le> 3 * length values \<and>
       5 * fallingSteps values \<le> 3 * length values)"
    by (auto simp: detectTrend_eq)
  ultimately show ?thesis using ex by blast
qed

text \<open>
  Claim C2 as stated fails: in \<open>[1, 2, 3, 4, 4]\<close> three of the four steps rise, which is more
  than 60% of the \<open>n - 1 = 4\<close> steps, yet the result is "stable", because three does not exceed
  60% of the five values.
\<close>

theorem detectTrend_steps_counterexample:
  "0.6 * real (length [1, 2, 3, 4, 4 :: real] - 1) < real (risingSteps [1, 2, 3, 4, 4]) \<and>
   detectTrend [1, 2, 3, 4, 4] = Stable"
  by (simp add: detectTrend_def trendStep_def risingSteps_def upt_rec)

subsection \<open>Outlier detection\<close>









subsection \<open>Correlation\<close>









subsection \<open>Type inference\<close>

lemma fold_typeStep:
  "\<forall>i \<in> set js. i < length values \<Longrightarrow>
   fold (typeStep N D values) js (a, b, c) =
     (a + length (filter (numericLike N) (map ((!) values) js)),
      b + length (filter (dateLike N D) (map ((!) values) js)),
      c + length (filter booleanLike (map ((!) values) js)))"
proof (induction js arbitrary: a b c)
  case Nil
  then show ?case by simp
next
  case (Cons j js)
  then show ?case
    by (simp add: typeStep_def Let_def numericLike_def dateLike_def booleanLike_def isEmptyCell_def
        isBoolean_def)
qed

lemma eighty_percent: "real n * 0.8 < real k \<longleftrightarrow> 4 * n < 5 * k"
proof -
  have "real n * 0.8 < real k \<longleftrightarrow> real (4 * n) < real (5 * k)"
    by (simp add: field_simps)
  then show ?thesis by (simp only: of_nat_less_iff)
qed

lemma detectColumnType_eq:
  "detectColumnType N D values =
     (let sample = take 100 values in
      if 4 * length sample < 5 * length (filter booleanLike sample) then TBoolean
      else if 4 * length sample < 5 * length (filter (numericLike N) sample) then TNumber
      else if 4 * length sample < 5 * length (filter (dateLike N D) sample) then TDate
      else TString)"
proof -
  have m: "map ((!) values) [0..<min 100 (length values)] = take 100 values"
    by (rule nth_equalityI) auto
  have "\<forall>i \<in> set [0..<min 100 (length values)]. i < length values" by simp
  from fold_typeStep [OF this, of N D 0 0 0]
  show ?thesis
    unfolding detectColumnType_def Let_def m
    by (simp add: eighty_percent min.commute)
qed

text \<open>
  Claim C3, as the code has it. Only the first 100 values are examined and empty ones are
  skipped when counting, but the threshold is 80% of the sample size \<open>min 100 n\<close>, empty values
  included (\<^verbatim>\<open>sampleSize * 0.8\<close>), not 80% of the non-empty values. The type is boolean when the
  boolean-like values exceed that threshold, else number when the numeric values do, else date
  when the date values do, else string. In particular a non-empty input whose first \<open>min 100 n\<close>
  entries are all numeric (none of them empty) is inferred number, and so is a sample of nine
  numbers and one empty value.
\<close>

theorem detectColumnType_sample_threshold:
  "detectColumnType N D values =
     (let sample = take 100 values in
      if 4 * length sample < 5 * length (filter booleanLike sample) then TBoolean
      else if 4 * length sample < 5 * length (filter (numericLike N) sample) then TNumber
      else if 4 * length sample < 5 * length (filter (dateLike N D) sample) then TDate
      else TString) \<and>
   detectColumnType N D values = detectColumnType N D (take 100 values) \<and>
   (values \<noteq> [] \<and> (\<forall>v \<in> set (take 100 values). numericLike N v) \<longrightarrow>
      detectColumnType N D values = TNumber) \<and>
   detectColumnType N D
     [NumV 1, NumV 2, NumV 3, NumV 4, NumV 5, NumV 6, NumV 7, NumV 8, NumV 9, Null] = TNumber"
proof -
  have 1: "detectColumnType N D values = detectColumnType N D (take 100 values)"
    by (simp add: detectColumnType_eq)
  have 2: "values \<noteq> [] \<and> (\<forall>v \<in> set (take 100 values). numericLike N v) \<longrightarrow>
      detectColumnType N D values = TNumber"
  proof
    assume a: "values \<noteq> [] \<and> (\<forall>v \<in> set (take 100 values). numericLike N v)"
    then have n: "filter (numericLike N) (take 100 values) = take 100 values" by simp
    from a have "\<forall>v \<in> set (take 100 values). \<not> booleanLike v" by (simp add: numericLike_def)
    then have b: "filter booleanLike (take 100 values) = []" by simp
    from a have "0 < length (take 100 values)" by simp
    then show "detectColumnType N D values = TNumber"
      unfolding detectColumnType_eq Let_def n b by simp
  qed
  have 3: "detectColumnType N D
     [NumV 1, NumV 2, NumV 3, NumV 4, NumV 5, NumV 6, NumV 7, NumV 8, NumV 9, Null] = TNumber"
    by (simp add: detectColumnType_eq numericLike_def booleanLike_def isEmptyCell_def
        isBoolean_def Number_def)
  from 1 2 3 show ?thesis by (simp add: detectColumnType_eq)
qed

text \<open>The all-numeric case at a concrete input of two numbers.\<close>

theorem detectColumnType_sample_threshold_witness:
  "[NumV 1, NumV 2] \<noteq> [] \<and> numericLike (\<lambda>s. None) (NumV 1) \<and> numericLike (\<lambda>s. None) (NumV 2) \<and>
   detectColumnType (\<lambda>s. None) (\<lambda>v. False) [NumV 1, NumV 2] = TNumber"
  using detectColumnType_sample_threshold [of "\<lambda>s. None" "\<lambda>v. False" "[NumV 1, NumV 2]"]
  by (simp add: numericLike_def booleanLike_def isEmptyCell_def isBoolean_def Number_def)

text \<open>
  Claim C3 as stated fails: in \<open>[1, null, null, null, null]\<close> the only non-empty value is
  numeric, yet the inferred type is string, because one numeric value does not exceed 80% of the
  sample size five.
\<close>

theorem detectColumnType_empties_counterexample:
  "filter (\<lambda>v. \<not> isEmptyCell v) (take 100 [NumV 1, Null, Null, Null, Null]) = [NumV 1] \<and>
   numericLike (\<lambda>s. None) (NumV 1) \<and>
   detectColumnType (\<lambda>s. None) (\<lambda>v. False) [NumV 1, Null, Null, Null, Null] = TString"
  by (simp add: detectColumnType_eq numericLike_def booleanLike_def isEmptyCell_def
      isBoolean_def Number_def dateLike_def)

subsection \<open>Insight generation\<close>

lemma sumNullCounts_Inr:
  "(\<exists>m. sumNullCounts st cols k = Inr m) \<longleftrightarrow> (\<forall>col \<in> set cols. st (name col) \<noteq> None)"
  by (induction cols arbitrary: k) (auto split: option.splits)

lemma stringColumnInsights_Inr:
  "(\<exists>few. stringColumnInsights data st cols = Inr few) \<longleftrightarrow> (\<forall>col \<in> set cols. st (name col) \<noteq> None)"
  by (induction cols) (auto split: option.splits sum.splits)

lemma stringColumnInsights_kind:
  "stringColumnInsights data st cols = Inr few \<Longrightarrow> x \<in> set few \<Longrightarrow> kind x = Summary"
  by (induction cols arbitrary: few) (auto split: option.splits sum.splits if_splits)

lemma correlationInsights_kind: "x \<in> set (correlationInsights cs) \<Longrightarrow> kind x = Correlation"
  by (auto simp: correlationInsights_def Let_def split: if_splits)

lemma generateInsights_returns:
  "(\<exists>insights. generateInsights N data columnInfo st = Inr insights) \<longleftrightarrow>
   (\<forall>col \<in> set columnInfo. st (name col) \<noteq> None)"
proof
  assume "\<exists>insights. generateInsights N data columnInfo st = Inr insights"
  then have "\<exists>m. sumNullCounts st columnInfo 0 = Inr m"
    by (auto simp: generateInsights_def calculateDataQuality_def Let_def split: sum.splits)
  then show "\<forall>col \<in> set columnInfo. st (name col) \<noteq> None"
    by (simp only: sumNullCounts_Inr)
next
  assume a: "\<forall>col \<in> set columnInfo. st (name col) \<noteq> None"
  then obtain m where m: "sumNullCounts st columnInfo 0 = Inr m"
    using sumNullCounts_Inr [of st columnInfo 0] by blast
  from a have "\<forall>col \<in> set (filter (\<lambda>c. colType c = TString) columnInfo). st (name col) \<noteq> None"
    by simp
  then obtain few where
    "stringColumnInsights data st (filter (\<lambda>c. colType c = TString) columnInfo) = Inr few"
    using stringColumnInsights_Inr [of data st "filter (\<lambda>c. colType c = TString) columnInfo"] by blast
  with m show "\<exists>insights. generateInsights N data columnInfo st = Inr insights"
    by (simp add: generateInsights_def calculateDataQuality_def Let_def)
qed

lemma generateInsights_shape:
  assumes "generateInsights N data columnInfo st = Inr insights"
  shows "\<exists>few. stringColumnInsights data st (filter (\<lambda>c. colType c = TString) columnInfo) = Inr few \<and>
    kind (hd insights) = Summary \<and>
    insights = hd insights #
       concat (map (numericColumnInsights N data st) (filter (\<lambda>c. colType c = TNumber) columnInfo)) @
       (if length (filter (\<lambda>c. colType c = TNumber) columnInfo) \<ge> 2
        then correlationInsights (findCorrelations N data (filter (\<lambda>c. colType c = TNumber) columnInfo))
        else []) @ few"
  using assms
  by (auto simp: generateInsights_def Let_def split: sum.splits)

lemma generateInsights_numeric_part:
  assumes g: "generateInsights N data columnInfo st = Inr insights"
    and k: "kind x = Outlier \<or> kind x = Trend"
  shows "x \<in> set insights \<longleftrightarrow>
    (\<exists>col \<in> set columnInfo. colType col = TNumber \<and> x \<in> set (numericColumnInsights N data st col))"
proof -
  from generateInsights_shape [OF g] obtain few where
        f: "stringColumnInsights data st (filter (\<lambda>c. colType c = TString) columnInfo) = Inr few"
    and s: "kind (hd insights) = Summary"
    and i: "insights = hd insights #
       concat (map (numericColumnInsights N data st) (filter (\<lambda>c. colType c = TNumber) columnInfo)) @
       (if length (filter (\<lambda>c. colType c = TNumber) columnInfo) \<ge> 2
        then correlationInsights (findCorrelations N data (filter (\<lambda>c. colType c = TNumber) columnInfo))
        else []) @ few"
    by blast
  have 1: "x \<noteq> hd insights" using s k by auto
  have 2: "x \<notin> set few" using stringColumnInsights_kind [OF f, of x] k by auto
  have 3: "x \<notin> set (correlationInsights cs)" for cs
    using correlationInsights_kind [of x cs] k by auto
  have "x \<in> set insights \<longleftrightarrow> x \<in> set (concat (map (numericColumnInsights N data st)
      (filter (\<lambda>c. colType c = TNumber) columnInfo)))"
    by (subst i) (use 1 2 3 in auto)
  then show ?thesis by auto
qed

lemma missing_in_column:
  "missingDataInsight c \<in> set (numericColumnInsights N data st col) \<longleftrightarrow>
     name col = c \<and> (\<exists>stats. st c = Some stats \<and> real (length data) * 0.2 < real (nullCount stats))"
  by (cases "st (name col)")
    (auto simp: missingDataInsight_def numericColumnInsights_def Let_def outlierInsights_def
      trendInsights_def variabilityInsights_def split: if_splits)



text \<open>
  Claim C4, as the code has it. The missing-data rule stands inside the loop over the numeric
  columns. When every column has statistics, \<^verbatim>\<open>generateInsights\<close> returns, and the high-severity
  missing-data insight for a column name \<open>c\<close> is among the insights exactly when \<open>c\<close> names a
  column of type number whose \<^verbatim>\<open>nullCount\<close> exceeds 20% of the row count. Columns of type
  string, date or boolean never receive it.
\<close>

theorem generateInsights_missing_data_numeric_columns:
  assumes "\<forall>col \<in> set columnInfo. st (name col) \<noteq> None"
  shows "\<exists>insights. generateInsights N data columnInfo st = Inr insights \<and>
     (missingDataInsight c \<in> set insights \<longleftrightarrow>
        (\<exists>col \<in> set columnInfo. colType col = TNumber \<and> name col = c \<and>
           (\<exists>stats. st c = Some stats \<and> real (length data) * 0.2 < real (nullCount stats))))"
proof -
  from assms obtain insights where g: "generateInsights N data columnInfo st = Inr insights"
    using generateInsights_returns [of N data columnInfo st] by blast
  have "kind (missingDataInsight c) = Outlier \<or> kind (missingDataInsight c) = Trend"
    by (simp add: missingDataInsight_def)
  from generateInsights_numeric_part [OF g this]
  have "missingDataInsight c \<in> set insights \<longleftrightarrow>
        (\<exists>col \<in> set columnInfo. colType col = TNumber \<and> name col = c \<and>
           (\<exists>stats. st c = Some stats \<and> real (length data) * 0.2 < real (nullCount stats)))"
    by (simp add: missing_in_column)
  with g show ?thesis by blast
qed

text \<open>A numeric column with one missing value in two rows receives the insight.\<close>

theorem generateInsights_missing_data_numeric_columns_witness:
  "\<exists>insights.
     generateInsights (\<lambda>s. None) [[''x'' \<mapsto> NumV 1], [''x'' \<mapsto> Null]]
       [\<lparr>name = ''x'', colType = TNumber, nullable = True\<rparr>]
       [''x'' \<mapsto> \<lparr>ColumnStats.count = 2, nullCount = 1, uniqueCount = 1, mean = Some 1,
          median = Some 1, mode = Some (NumV 1), stdDev = Some 0, minV = Some 1, maxV = Some 1,
          quartiles = Some (1, 1, 1)\<rparr>] = Inr insights \<and>
     missingDataInsight ''x'' \<in> set insights"
  using generateInsights_missing_data_numeric_columns [of
      "[\<lparr>name = ''x'', colType = TNumber, nullable = True\<rparr>]"
      "[''x'' \<mapsto> \<lparr>ColumnStats.count = 2, nullCount = 1, uniqueCount = 1, mean = Some 1,
          median = Some 1, mode = Some (NumV 1), stdDev = Some 0, minV = Some 1, maxV = Some 1,
          quartiles = Some (1, 1, 1)\<rparr>]"
      "\<lambda>s. None" "[[''x'' \<mapsto> NumV 1], [''x'' \<mapsto> Null]]" "''x''"]
  by simp

text \<open>
  Claim C4 as stated fails: a string column with one missing value in two rows (50%, more than
  20%) receives no missing-data insight; the only insight produced is the summary.
\<close>

theorem generateInsights_missing_data_string_counterexample:
  "real (length [[''city'' \<mapsto> StrV ''a''], [''city'' \<mapsto> Null]]) * 0.2 < real (1 :: nat) \<and>
   generateInsights (\<lambda>s. None) [[''city'' \<mapsto> StrV ''a''], [''city'' \<mapsto> Null]]
     [\<lparr>name = ''city'', colType = TString, nullable = True\<rparr>]
     [''city'' \<mapsto> \<lparr>ColumnStats.count = 2, nullCount = 1, uniqueCount = 1, mean = None,
        median = None, mode = Some (StrV ''a''), stdDev = None, minV = None, maxV = None,
        quartiles = None\<rparr>] =
   Inr [\<lparr>kind = Summary, title = ''Intelligent Dataset Analysis'', severity = High\<rparr>]"
  by (simp add: generateInsights_def calculateDataQuality_def exceeds_def)




subsection \<open>The seeded shuffle and the train/test split\<close>

text \<open>With a generator state that is not negative every draw \<open>j\<close> lies in \<open>0..i\<close>, so each
  iteration swaps two elements of the array.\<close>

lemma excessBits_small: "a < 2 ^ 53 \<Longrightarrow> excessBits a = 0"
  by (simp add: excessBits.simps)














lemma shuffle3:
  "shuffle [a, b, c] seed now =
     elems (result (shuffleStep 1 (shuffleStep 2
       \<lparr>result = \<lparr>elems = [Some a, Some b, Some c], props = (\<lambda>k. None)\<rparr>,
        currentSeed = initialSeed seed now\<rparr>)))"
  by (simp add: shuffle_def upt_rec numeral_2_eq_2)





text \<open>A seed that is not zero fixes the split: the clock is not consulted.\<close>

lemma splitData_seeded_ignores_clock:
  "s \<noteq> 0 \<Longrightarrow> splitData data t (Some s) now = splitData data t (Some s) now'"
  by (simp add: splitData_def shuffle_def initialSeed_def)

lemma shuffle_clock_1793700000001:
  "shuffle [''a'', ''b'', ''c''] (Some 0) 1793700000001 = [Some ''c'', Some ''b'', Some ''a'']"
proof -
  have i: "initialSeed (Some 0) 1793700000001 = 1793700000001" by (simp add: initialSeed_def)
  have e1: "excessBits 16683203700009301 = 1" by (simp add: excessBits.simps)
  have d1: "roundToDouble 16683203700009301 = 16683203700009300"
    by (simp add: roundToDouble_def e1 Let_def)
  have e2: "excessBits 16683203700058597 = 1" by (simp add: excessBits.simps)
  have d2: "roundToDouble 16683203700058597 = 16683203700058596"
    by (simp add: roundToDouble_def e2 Let_def)
  have n1: "nextSeed 1793700000001 = 72996"
    by (simp add: nextSeed_def d1 d2 jsRem_def)
  have n2: "nextSeed 72996 = 140293"
    by (simp add: nextSeed_def roundToDouble_def excessBits_small jsRem_def Let_def)
  have r1: "randomIndex 72996 2 = 0" by (simp add: randomIndex_def)
  have r2: "randomIndex 140293 (Suc 0) = 1" by (simp add: randomIndex_def)
  have s1: "shuffleStep 2
      \<lparr>result = \<lparr>elems = [Some ''a'', Some ''b'', Some ''c''], props = (\<lambda>k. None)\<rparr>,
       currentSeed = 1793700000001\<rparr> =
      \<lparr>result = \<lparr>elems = [Some ''c'', Some ''b'', Some ''a''], props = (\<lambda>k. None)\<rparr>,
       currentSeed = 72996\<rparr>"
    by (simp add: shuffleStep_def n1 r1 arrayGet_def arraySet_def Let_def)
  have s2: "shuffleStep 1
      \<lparr>result = \<lparr>elems = [Some ''c'', Some ''b'', Some ''a''], props = (\<lambda>k. None)\<rparr>,
       currentSeed = 72996\<rparr> =
      \<lparr>result = \<lparr>elems = [Some ''c'', Some ''b'', Some ''a''], props = (\<lambda>k. None)\<rparr>,
       currentSeed = 140293\<rparr>"
    by (simp add: shuffleStep_def n2 r2 arrayGet_def arraySet_def Let_def)
  show ?thesis by (simp only: shuffle3 i s1 s2) simp
qed

lemma shuffle_clock_1793700000002:
  "shuffle [''a'', ''b'', ''c''] (Some 0) 1793700000002 = [Some ''a'', Some ''c'', Some ''b'']"
proof -
  have i: "initialSeed (Some 0) 1793700000002 = 1793700000002" by (simp add: initialSeed_def)
  have e1: "excessBits 16683203700018602 = 1" by (simp add: excessBits.simps)
  have d1: "roundToDouble 16683203700018602 = 16683203700018602"
    by (simp add: roundToDouble_def e1 Let_def)
  have e2: "excessBits 16683203700067899 = 1" by (simp add: excessBits.simps)
  have d2: "roundToDouble 16683203700067899 = 16683203700067900"
    by (simp add: roundToDouble_def e2 Let_def)
  have n1: "nextSeed 1793700000002 = 82300"
    by (simp add: nextSeed_def d1 d2 jsRem_def)
  have n2: "nextSeed 82300 = 129917"
    by (simp add: nextSeed_def roundToDouble_def excessBits_small jsRem_def Let_def)
  have r1: "randomIndex 82300 2 = 1" by (simp add: randomIndex_def)
  have r2: "randomIndex 129917 (Suc 0) = 1" by (simp add: randomIndex_def)
  have s1: "shuffleStep 2
      \<lparr>result = \<lparr>elems = [Some ''a'', Some ''b'', Some ''c''], props = (\<lambda>k. None)\<rparr>,
       currentSeed = 1793700000002\<rparr> =
      \<lparr>result = \<lparr>elems = [Some ''a'', Some ''c'', Some ''b''], props = (\<lambda>k. None)\<rparr>,
       currentSeed = 82300\<rparr>"
    by (simp add: shuffleStep_def n1 r1 arrayGet_def arraySet_def Let_def)
  have s2: "shuffleStep 1
      \<lparr>result = \<lparr>elems = [Some ''a'', Some ''c'', Some ''b''], props = (\<lambda>k. None)\<rparr>,
       currentSeed = 82300\<rparr> =
      \<lparr>result = \<lparr>elems = [Some ''a'', Some ''c'', Some ''b''], props = (\<lambda>k. None)\<rparr>,
       currentSeed = 129917\<rparr>"
    by (simp add: shuffleStep_def n2 r2 arrayGet_def arraySet_def Let_def)
  show ?thesis by (simp only: shuffle3 i s1 s2) simp
qed

text \<open>
  Claim C1 at the seed 0. \<^verbatim>\<open>seed || Date.now()\<close> treats the supplied seed 0 as absent, so the
  generator starts from the wall clock: two invocations with the same rows \<open>a, b, c\<close>, the same
  test size 0.5 and the same seed 0, one millisecond apart (clock readings 1793700000001 and
  1793700000002), produce different partitions.
\<close>

theorem splitData_zero_seed_follows_clock:
  "splitData [''a'', ''b'', ''c''] 0.5 (Some 0) 1793700000001 =
     \<lparr>trainData = [Some ''b'', Some ''a''], testData = [Some ''c'']\<rparr> \<and>
   splitData [''a'', ''b'', ''c''] 0.5 (Some 0) 1793700000002 =
     \<lparr>trainData = [Some ''c'', Some ''b''], testData = [Some ''a'']\<rparr>"
  by (simp add: splitData_def shuffle_clock_1793700000001 shuffle_clock_1793700000002 Let_def
      slice_def)

subsection \<open>The trainers: progress calls and the shape of the result\<close>














































subsection \<open>The dispatcher\<close>













subsection \<open>Training runs\<close>







end
